theory Spec2Isabelle
  imports Main "HOL-Library.Sublist"
begin

section \<open>The wpcli Ansible module (wpcli.py)\<close>

text \<open>
  The module keeps a hand-built registry of WP-CLI commands, checks a request against
  it, formats the supplied options as command-line flags, runs the \<open>wp\<close> binary and
  classifies its output. Strings are Python 2 byte strings, modelled as \<open>string\<close>.
\<close>

subsection \<open>Option, SubCommand and Command objects\<close>

record Option =
  name :: string
  accepts_values :: bool

record SubCommand =
  name :: string
  options :: "string \<rightharpoonup> Option"

text \<open>
  SubCommand objects are mutated in place by \<open>add_option\<close> after they have been stored
  in a Command's dictionary, so they live in a store: a reference is an index into the
  list of all SubCommand objects created so far.
\<close>

type_synonym ref = nat
type_synonym heap = "SubCommand list"

record Command =
  name :: string
  subCommands :: "string \<rightharpoonup> ref"

text \<open>
  \<open>SubCommand.__init__(self, name, alias=False)\<close>: the default \<open>False\<close> is \<open>None\<close>
  here, and \<open>if alias:\<close> holds for a non-empty string.
\<close>

definition SubCommand_init :: "string \<Rightarrow> string option \<Rightarrow> SubCommand" where
  "SubCommand_init n alias =
     \<lparr>SubCommand.name = (case alias of None \<Rightarrow> n | Some a \<Rightarrow> if a \<noteq> [] then a else n),
      options = Map.empty\<rparr>"

text \<open>\<open>self.options[name] = Option(name, accepts_values); return self\<close>\<close>

definition add_option :: "ref \<Rightarrow> string \<Rightarrow> bool \<Rightarrow> heap \<Rightarrow> ref \<times> heap" where
  "add_option self n av h =
     (self,
      h[self := (h ! self)\<lparr>options :=
          (options (h ! self))(n \<mapsto> \<lparr>Option.name = n, accepts_values = av\<rparr>)\<rparr>])"

definition Command_init :: "string \<Rightarrow> Command" where
  "Command_init n = \<lparr>Command.name = n, subCommands = Map.empty\<rparr>"

text \<open>
  \<open>add_sub_command\<close> creates a new SubCommand object, stores it under the key \<open>name\<close>
  (not under the alias) and returns it.
\<close>

definition add_sub_command ::
  "Command \<Rightarrow> string \<Rightarrow> string option \<Rightarrow> heap \<Rightarrow> ref \<times> Command \<times> heap" where
  "add_sub_command self n alias h =
     (let sub_command = length h;
          h' = h @ [SubCommand_init n alias]
      in (sub_command, self\<lparr>subCommands := (subCommands self)(n \<mapsto> sub_command)\<rparr>, h'))"

subsection \<open>The registry built when the module is loaded\<close>

definition module_init :: "(string \<rightharpoonup> Command) \<times> heap" where
  "module_init =
     (let h = [];
          core = Command_init ''core'';
          (s, core, h) = add_sub_command core ''install'' None h;
          (s, h) = add_option s ''url'' True h;
          (s, h) = add_option s ''title'' True h;
          (s, h) = add_option s ''admin_user'' True h;
          (s, h) = add_option s ''admin_password'' True h;
          (s, h) = add_option s ''admin_email'' True h;
          (s, h) = add_option s ''skip-email'' False h;
          (s, core, h) = add_sub_command core ''update'' None h;
          (s, h) = add_option s ''minor'' False h;
          (s, h) = add_option s ''version'' True h;
          (s, core, h) = add_sub_command core ''download'' None h;
          (s, core, h) = add_sub_command core ''config'' None h;
          (s, h) = add_option s ''dbname'' True h;
          (s, h) = add_option s ''dbuser'' True h;
          (s, h) = add_option s ''dbpass'' True h;
          (s, core, h) = add_sub_command core ''update'' None h;
          (s, core, h) = add_sub_command core ''update-db'' None h;
          (s, core, h) = add_sub_command core ''checkUpdate'' (Some ''check-update'') h;
          theme = Command_init ''theme'';
          (s, theme, h) = add_sub_command theme ''update'' None h;
          (s, h) = add_option s ''all'' False h;
          plugin = Command_init ''plugin'';
          (s, plugin, h) = add_sub_command plugin ''update'' None h;
          (s, h) = add_option s ''all'' False h
      in ([''core'' \<mapsto> core, ''theme'' \<mapsto> theme, ''plugin'' \<mapsto> plugin], h))"

definition commands :: "string \<rightharpoonup> Command" where
  "commands = fst module_init"

definition objects :: heap where
  "objects = snd module_init"

subsection \<open>Output normalisation\<close>

text \<open>
  Without the \<open>UNICODE\<close> flag, \<open>\s\<close> is the set \<open>[ \t\n\r\f\v]\<close>; \<open>str.strip()\<close>
  removes the same six bytes.
\<close>

definition isspace :: "char \<Rightarrow> bool" where
  "isspace c \<longleftrightarrow> c \<in> {CHR '' '', CHR 0x09, CHR 0x0A, CHR 0x0D, CHR 0x0C, CHR 0x0B}"

text \<open>\<open>re.sub("\s+", " ", string)\<close>: every maximal run of whitespace becomes one space.\<close>

function re_sub_spaces :: "string \<Rightarrow> string" where
  "re_sub_spaces [] = []"
| "re_sub_spaces (c # cs) =
     (if isspace c then CHR '' '' # re_sub_spaces (dropWhile isspace cs)
      else c # re_sub_spaces cs)"
  by pat_completeness auto
termination
  by (relation "measure length") (auto simp: length_dropWhile_le less_Suc_eq_le)

definition strip :: "string \<Rightarrow> string" where
  "strip s = rev (dropWhile isspace (rev (dropWhile isspace s)))"

definition parse_out :: "string \<Rightarrow> string" where
  "parse_out s = strip (re_sub_spaces s)"

text \<open>
  \<open>re.search(pattern, output)\<close> for the four patterns of \<open>main\<close>, none of which has a
  regular-expression metacharacter: the pattern occurs as a contiguous substring.
\<close>

definition re_search :: "string \<Rightarrow> string \<Rightarrow> bool" where
  "re_search pattern s = sublist pattern s"

subsection \<open>Requests, the environment and outcomes\<close>

text \<open>
  The values of the \<open>arguments\<close> dictionary come from YAML and are not converted:
  strings, null, numbers and booleans all arrive as they are.
\<close>

datatype pyval = PyStr string | PyNone | PyInt int | PyBool bool

text \<open>
  \<open>arguments\<close> is optional (\<open>None\<close> when not given); a dictionary is the list of its
  items in the order \<open>iteritems()\<close> yields them.
\<close>

record params =
  command :: string
  subcommand :: string
  arguments :: "(string \<times> pyval) list option"
  working_dir :: string

text \<open>
  What the module sees of the host: \<open>get_bin_path("wp", True, ...)\<close> finds the binary or
  not, and \<open>run_command\<close> maps a command line to exit code, stdout and stderr.
\<close>

record env =
  bin_path :: "string option"
  run_command :: "string \<Rightarrow> int \<times> string \<times> string"

record kwargs =
  msg :: string
  stdout :: "string option"
  changed :: "bool option"

datatype exn = TypeError

text \<open>
  How a run ends: \<open>exit_json\<close>, \<open>fail_json\<close> (both leave the process), the failure that
  \<open>get_bin_path\<close> reports itself when the required binary is missing, or an exception
  nobody catches.
\<close>

datatype outcome = Exit_json kwargs | Fail_json kwargs | Bin_path_missing | Raised exn

fun exit_status :: "outcome \<Rightarrow> int" where
  "exit_status (Exit_json _) = 0"
| "exit_status (Fail_json _) = 1"
| "exit_status Bin_path_missing = 1"
| "exit_status (Raised _) = 1"

definition fail_msg :: "string \<Rightarrow> outcome" where
  "fail_msg m = Fail_json \<lparr>msg = m, stdout = None, changed = None\<rparr>"

subsection \<open>Lookup in the registry\<close>

definition get_command :: "string \<Rightarrow> (string \<rightharpoonup> Command) \<Rightarrow> outcome + Command" where
  "get_command cmd available_commands =
     (case available_commands cmd of
        Some c \<Rightarrow> Inr c
      | None \<Rightarrow> Inl (fail_msg ''Command not available''))"

definition get_sub_command :: "heap \<Rightarrow> Command \<Rightarrow> string \<Rightarrow> outcome + SubCommand" where
  "get_sub_command h cmd sub_command =
     (case subCommands cmd sub_command of
        Some r \<Rightarrow> Inr (h ! r)
      | None \<Rightarrow> Inl (fail_msg ''SubCommand not available in Command''))"

definition get_sub_command_option :: "SubCommand \<Rightarrow> string \<Rightarrow> outcome + Option" where
  "get_sub_command_option sub_command option =
     (case options sub_command option of
        Some opt \<Rightarrow> Inr opt
      | None \<Rightarrow> Inl (fail_msg ''Option not available in SubCommand''))"

subsection \<open>Formatting the options\<close>

text \<open>
  The loop of \<open>get_formatted_options\<close>. \<open>option_instance.name + "=" + value\<close> raises
  \<open>TypeError\<close> unless \<open>value\<close> is a string.
\<close>

fun format_items ::
  "SubCommand \<Rightarrow> (string \<times> pyval) list \<Rightarrow> string list \<Rightarrow> outcome + string list" where
  "format_items sub_command [] formatted_options = Inr formatted_options"
| "format_items sub_command ((option, v) # rest) formatted_options =
     (case get_sub_command_option sub_command option of
        Inl failure \<Rightarrow> Inl failure
      | Inr option_instance \<Rightarrow>
          if accepts_values option_instance then
            (case v of
               PyStr s \<Rightarrow>
                 format_items sub_command rest
                   (formatted_options @ [''--'' @ (Option.name option_instance @ ''='' @ s)])
             | _ \<Rightarrow> Inl (Raised TypeError))
          else
            format_items sub_command rest
              (formatted_options @ [''--'' @ Option.name option_instance]))"

text \<open>\<open>if options:\<close> is false for \<open>None\<close> and for the empty dictionary.\<close>

definition get_formatted_options ::
  "SubCommand \<Rightarrow> (string \<times> pyval) list option \<Rightarrow> outcome + string list" where
  "get_formatted_options sub_command opts =
     (case opts of
        None \<Rightarrow> Inr []
      | Some items \<Rightarrow> format_items sub_command items [])"

subsection \<open>Running the command\<close>

fun join :: "string \<Rightarrow> string list \<Rightarrow> string" where
  "join sep [] = []"
| "join sep [x] = x"
| "join sep (x # y # ys) = x @ sep @ join sep (y # ys)"

text \<open>
  \<open>wp_better_command\<close> returns the command line it ran together with the triple of
  \<open>run_command\<close>, so that a caller can tell what was executed.
\<close>

definition wp_better_command ::
  "env \<Rightarrow> Command \<Rightarrow> SubCommand \<Rightarrow> string list \<Rightarrow> outcome + (string \<times> int \<times> string \<times> string)" where
  "wp_better_command e cmd sub opts =
     (case bin_path e of
        None \<Rightarrow> Inl Bin_path_missing
      | Some wp_path \<Rightarrow>
          (let cmdline = wp_path @ '' '' @ Command.name cmd @ '' '' @ SubCommand.name sub
                          @ '' '' @ join '' '' opts
           in Inr (cmdline, run_command e cmdline)))"

subsection \<open>main\<close>

text \<open>
  The four checks on the normalised output, in the order of the source; each assignment
  replaces the value of \<open>changed\<close>.
\<close>

definition classify :: "string \<Rightarrow> bool" where
  "classify output =
     (let changed = False;
          changed = (if re_search ''Success'' output then True else changed);
          changed = (if re_search ''update_type'' output then True else changed);
          changed = (if re_search ''0/0'' output then False else changed);
          changed = (if re_search ''WordPress is at the latest version'' output
                     then False else changed)
      in changed)"

text \<open>
  \<open>main\<close> returns how the run ended and the list of command lines it executed.
\<close>

definition main :: "env \<Rightarrow> params \<Rightarrow> outcome \<times> string list" where
  "main e p =
     (case get_command (command p) commands of
        Inl failure \<Rightarrow> (failure, [])
      | Inr parsed_command \<Rightarrow>
     (case get_sub_command objects parsed_command (subcommand p) of
        Inl failure \<Rightarrow> (failure, [])
      | Inr parsed_sub_command \<Rightarrow>
     (case get_formatted_options parsed_sub_command (arguments p) of
        Inl failure \<Rightarrow> (failure, [])
      | Inr formatted \<Rightarrow>
     (let parsed_options = formatted @ [''--path='' @ working_dir p] in
      case wp_better_command e parsed_command parsed_sub_command parsed_options of
        Inl failure \<Rightarrow> (failure, [])
      | Inr (cmdline, rc, out, err) \<Rightarrow>
          if rc \<noteq> 0 then
            (Fail_json \<lparr>msg = parse_out err, stdout = Some err, changed = Some False\<rparr>,
             [cmdline])
          else
            (let output = parse_out (out @ err) in
             (Exit_json \<lparr>msg = output, stdout = Some (out @ err),
                         changed = Some (classify output)\<rparr>,
              [cmdline]))))))"

subsection \<open>Auxiliary notions used in the statements\<close>

text \<open>The first two steps of \<open>main\<close>: the command, then the subcommand under it.\<close>

definition resolve :: "string \<Rightarrow> string \<Rightarrow> outcome + (Command \<times> SubCommand)" where
  "resolve c s =
     (case get_command c commands of
        Inl failure \<Rightarrow> Inl failure
      | Inr parsed_command \<Rightarrow>
          (case get_sub_command objects parsed_command s of
             Inl failure \<Rightarrow> Inl failure
           | Inr parsed_sub_command \<Rightarrow> Inr (parsed_command, parsed_sub_command)))"

text \<open>
  The (command, subcommand key) pairs that the module-level code declares, in the order
  of the source, the repeated \<open>core update\<close> listed once.
\<close>

definition catalog_pairs :: "(string \<times> string) list" where
  "catalog_pairs =
     [(''core'', ''install''), (''core'', ''update''), (''core'', ''download''),
      (''core'', ''config''), (''core'', ''update-db''), (''core'', ''checkUpdate''),
      (''theme'', ''update''), (''plugin'', ''update'')]"

text \<open>
  The shape of a string in which every whitespace character is a single space that is
  not followed by another whitespace character.
\<close>

fun collapsed :: "string \<Rightarrow> bool" where
  "collapsed [] = True"
| "collapsed [c] = (isspace c \<longrightarrow> c = CHR '' '')"
| "collapsed (c # d # cs) = ((isspace c \<longrightarrow> c = CHR '' '' \<and> \<not> isspace d) \<and> collapsed (d # cs))"

text \<open>
  The flag that one entry of the argument dictionary stands for: \<open>--name=value\<close> when
  the option found under the key accepts a value and the value is a string, \<open>--name\<close>
  when it accepts none (whatever the value). No flag belongs to a key that the
  subcommand does not have, nor to a value-accepting option given a non-string.
\<close>

definition emits :: "SubCommand \<Rightarrow> string \<times> pyval \<Rightarrow> string \<Rightarrow> bool" where
  "emits sub item flag =
     (case item of (k, v) \<Rightarrow>
        (case options sub k of
           None \<Rightarrow> False
         | Some opt \<Rightarrow>
             if accepts_values opt then
               (case v of PyStr s \<Rightarrow> flag = ''--'' @ Option.name opt @ ''='' @ s | _ \<Rightarrow> False)
             else flag = ''--'' @ Option.name opt))"

text \<open>The items of the optional argument dictionary; none when it is absent.\<close>

definition dict_items :: "(string \<times> pyval) list option \<Rightarrow> (string \<times> pyval) list" where
  "dict_items opts = (case opts of None \<Rightarrow> [] | Some items \<Rightarrow> items)"



text \<open>
  A host on which \<open>wp\<close> is installed and every run ends with the given exit code,
  stdout and stderr.
\<close>

definition example_env :: "int \<Rightarrow> string \<Rightarrow> string \<Rightarrow> env" where
  "example_env rc out err =
     \<lparr>bin_path = Some ''/usr/local/bin/wp'', run_command = (\<lambda>_. (rc, out, err))\<rparr>"

text \<open>
  Normalisation as the specification words it: every whitespace character becomes a
  space, a space followed by a space is dropped, and the result is trimmed.
\<close>

fun squeeze :: "string \<Rightarrow> string" where
  "squeeze (c # d # cs) =
     (if c = CHR '' '' \<and> d = CHR '' '' then squeeze (d # cs) else c # squeeze (d # cs))"
| "squeeze cs = cs"

definition normalize_spec :: "string \<Rightarrow> string" where
  "normalize_spec s =
     strip (squeeze (map (\<lambda>c. if isspace c then CHR '' '' else c) s))"

section \<open>Properties\<close>

subsection \<open>The registry after construction\<close>

lemmas build_defs =
  module_init_def Let_def add_sub_command_def add_option_def SubCommand_init_def
  Command_init_def

lemma objects_eval:
  "objects =
    [\<lparr>SubCommand.name = ''install'', options =
        [''url'' \<mapsto> \<lparr>Option.name = ''url'', accepts_values = True\<rparr>,
         ''title'' \<mapsto> \<lparr>Option.name = ''title'', accepts_values = True\<rparr>,
         ''admin_user'' \<mapsto> \<lparr>Option.name = ''admin_user'', accepts_values = True\<rparr>,
         ''admin_password'' \<mapsto> \<lparr>Option.name = ''admin_password'', accepts_values = True\<rparr>,
         ''admin_email'' \<mapsto> \<lparr>Option.name = ''admin_email'', accepts_values = True\<rparr>,
         ''skip-email'' \<mapsto> \<lparr>Option.name = ''skip-email'', accepts_values = False\<rparr>]\<rparr>,
     \<lparr>SubCommand.name = ''update'', options =
        [''minor'' \<mapsto> \<lparr>Option.name = ''minor'', accepts_values = False\<rparr>,
         ''version'' \<mapsto> \<lparr>Option.name = ''version'', accepts_values = True\<rparr>]\<rparr>,
     \<lparr>SubCommand.name = ''download'', options = Map.empty\<rparr>,
     \<lparr>SubCommand.name = ''config'', options =
        [''dbname'' \<mapsto> \<lparr>Option.name = ''dbname'', accepts_values = True\<rparr>,
         ''dbuser'' \<mapsto> \<lparr>Option.name = ''dbuser'', accepts_values = True\<rparr>,
         ''dbpass'' \<mapsto> \<lparr>Option.name = ''dbpass'', accepts_values = True\<rparr>]\<rparr>,
     \<lparr>SubCommand.name = ''update'', options = Map.empty\<rparr>,
     \<lparr>SubCommand.name = ''update-db'', options = Map.empty\<rparr>,
     \<lparr>SubCommand.name = ''check-update'', options = Map.empty\<rparr>,
     \<lparr>SubCommand.name = ''update'', options =
        [''all'' \<mapsto> \<lparr>Option.name = ''all'', accepts_values = False\<rparr>]\<rparr>,
     \<lparr>SubCommand.name = ''update'', options =
        [''all'' \<mapsto> \<lparr>Option.name = ''all'', accepts_values = False\<rparr>]\<rparr>]"
  by (simp add: objects_def build_defs)

text \<open>
  In the dictionary of \<open>core\<close> the key \<open>update\<close> points to the object of the second
  declaration (index 4); the object of the first (index 1) is no longer referenced.
\<close>

lemma commands_eval:
  "commands =
    [''core'' \<mapsto> \<lparr>Command.name = ''core'', subCommands =
        [''install'' \<mapsto> 0, ''download'' \<mapsto> 2, ''config'' \<mapsto> 3, ''update'' \<mapsto> 4,
         ''update-db'' \<mapsto> 5, ''checkUpdate'' \<mapsto> 6]\<rparr>,
     ''theme'' \<mapsto> \<lparr>Command.name = ''theme'', subCommands = [''update'' \<mapsto> 7]\<rparr>,
     ''plugin'' \<mapsto> \<lparr>Command.name = ''plugin'', subCommands = [''update'' \<mapsto> 8]\<rparr>]"
  by (simp add: commands_def build_defs eval_nat_numeral)

lemmas resolve_defs = resolve_def get_command_def get_sub_command_def

lemma add_sub_command_fresh:
  assumes "add_sub_command c n alias h = (r, c', h')"
  shows "r = length h" and "subCommands c' n = Some r"
    and "h' ! r = SubCommand_init n alias" and "options (h' ! r) = Map.empty"
    and "\<forall>i < length h. h' ! i = h ! i"
  using assms by (auto simp: add_sub_command_def Let_def SubCommand_init_def nth_append)

lemma resolve_iff_catalog: "(\<exists>r. resolve c s = Inr r) \<longleftrightarrow> (c, s) \<in> set catalog_pairs"
  by (auto simp add: resolve_defs commands_eval objects_eval catalog_pairs_def
      split: if_splits)

lemmas main_defs =
  main_def get_command_def get_sub_command_def get_formatted_options_def
  wp_better_command_def

text \<open>
  C7. Every declared (command, subcommand key) pair resolves, and the resolved
  subcommand's emitted name is the key itself, except for the key \<open>checkUpdate\<close> of
  \<open>core\<close>, whose emitted name is \<open>check-update\<close>. The key stays \<open>checkUpdate\<close>:
  looking up \<open>check-update\<close> fails, and a run with the key \<open>checkUpdate\<close> puts
  \<open>check-update\<close> on the command line.
\<close>

theorem known_pairs_resolve:
  "((c, s) \<in> set catalog_pairs \<longrightarrow>
      (\<exists>pc sc. resolve c s = Inr (pc, sc) \<and> Command.name pc = c \<and>
         SubCommand.name sc = (if s = ''checkUpdate'' then ''check-update'' else s)))
   \<and> (\<exists>pc. resolve ''core'' ''checkUpdate'' =
          Inr (pc, \<lparr>SubCommand.name = ''check-update'', options = Map.empty\<rparr>))
   \<and> resolve ''core'' ''check-update'' = Inl (fail_msg ''SubCommand not available in Command'')
   \<and> (bin_path e = Some w \<longrightarrow>
        snd (main e \<lparr>command = ''core'', subcommand = ''checkUpdate'', arguments = None,
                     working_dir = d\<rparr>)
          = [w @ '' core check-update --path='' @ d])"
proof (intro conjI)
  show "(c, s) \<in> set catalog_pairs \<longrightarrow>
      (\<exists>pc sc. resolve c s = Inr (pc, sc) \<and> Command.name pc = c \<and>
         SubCommand.name sc = (if s = ''checkUpdate'' then ''check-update'' else s))"
    by (auto simp add: resolve_defs commands_eval objects_eval catalog_pairs_def)
  show "\<exists>pc. resolve ''core'' ''checkUpdate'' =
          Inr (pc, \<lparr>SubCommand.name = ''check-update'', options = Map.empty\<rparr>)"
    by (simp add: resolve_defs commands_eval objects_eval)
  show "resolve ''core'' ''check-update'' =
          Inl (fail_msg ''SubCommand not available in Command'')"
    by (simp add: resolve_defs commands_eval objects_eval)
  show "bin_path e = Some w \<longrightarrow>
        snd (main e \<lparr>command = ''core'', subcommand = ''checkUpdate'', arguments = None,
                     working_dir = d\<rparr>)
          = [w @ '' core check-update --path='' @ d]"
    by (simp add: main_defs commands_eval objects_eval Let_def split: prod.splits)
qed

theorem known_pairs_resolve_witness:
  "(''core'', ''checkUpdate'') \<in> set catalog_pairs
   \<and> (\<exists>pc sc. resolve ''core'' ''checkUpdate'' = Inr (pc, sc) \<and> Command.name pc = ''core''
         \<and> SubCommand.name sc = ''check-update'')
   \<and> bin_path \<lparr>bin_path = Some ''/usr/local/bin/wp'', run_command = (\<lambda>_. (0, [], []))\<rparr>
        = Some ''/usr/local/bin/wp''
   \<and> snd (main \<lparr>bin_path = Some ''/usr/local/bin/wp'', run_command = (\<lambda>_. (0, [], []))\<rparr>
             \<lparr>command = ''core'', subcommand = ''checkUpdate'', arguments = None,
              working_dir = ''/srv/www''\<rparr>)
        = [''/usr/local/bin/wp core check-update --path=/srv/www'']"
  using known_pairs_resolve [of "''core''" "''checkUpdate''"
      "\<lparr>bin_path = Some ''/usr/local/bin/wp'', run_command = (\<lambda>_. (0, [], []))\<rparr>"
      "''/usr/local/bin/wp''" "''/srv/www''"]
  by (simp add: catalog_pairs_def)

text \<open>
  C2. After the registry is built, \<open>update\<close> under \<open>core\<close> is the object of the second
  declaration, which has no options: the key points to the object created last, while the
  object of the first declaration still carries \<open>minor\<close> and \<open>version\<close> but is not the one
  the key refers to. Hence every request for \<open>core update\<close> with a non-empty argument
  dictionary ends with the unknown-option failure, and nothing is run.
\<close>

theorem core_update_second_declaration:
  "(\<exists>pc. resolve ''core'' ''update'' =
            Inr (pc, \<lparr>SubCommand.name = ''update'', options = Map.empty\<rparr>)
          \<and> subCommands pc ''update'' = Some 4)
   \<and> objects ! 4 = \<lparr>SubCommand.name = ''update'', options = Map.empty\<rparr>
   \<and> dom (options (objects ! 1)) = {''minor'', ''version''}
   \<and> (args \<noteq> [] \<longrightarrow>
        main e \<lparr>command = ''core'', subcommand = ''update'', arguments = Some args,
                working_dir = d\<rparr>
          = (fail_msg ''Option not available in SubCommand'', []))"
proof (intro conjI)
  show "\<exists>pc. resolve ''core'' ''update'' =
            Inr (pc, \<lparr>SubCommand.name = ''update'', options = Map.empty\<rparr>)
          \<and> subCommands pc ''update'' = Some 4"
    by (simp add: resolve_defs commands_eval objects_eval)
  show "objects ! 4 = \<lparr>SubCommand.name = ''update'', options = Map.empty\<rparr>"
    by (simp add: objects_eval)
  show "dom (options (objects ! 1)) = {''minor'', ''version''}"
    by (auto simp add: objects_eval)
  show "args \<noteq> [] \<longrightarrow>
        main e \<lparr>command = ''core'', subcommand = ''update'', arguments = Some args,
                working_dir = d\<rparr>
          = (fail_msg ''Option not available in SubCommand'', [])"
    by (cases args)
      (auto simp add: main_defs commands_eval objects_eval get_sub_command_option_def)
qed

theorem core_update_second_declaration_witness:
  "[(''minor'', PyNone)] \<noteq> []
   \<and> main \<lparr>bin_path = Some ''/usr/local/bin/wp'', run_command = (\<lambda>_. (0, [], []))\<rparr>
        \<lparr>command = ''core'', subcommand = ''update'',
         arguments = Some [(''minor'', PyNone)], working_dir = ''/srv/www''\<rparr>
      = (fail_msg ''Option not available in SubCommand'', [])"
  using core_update_second_declaration [of "[(''minor'', PyNone)]"
      "\<lparr>bin_path = Some ''/usr/local/bin/wp'', run_command = (\<lambda>_. (0, [], []))\<rparr>"
      "''/srv/www''"]
  by simp

subsection \<open>Output normalisation\<close>

lemma isspace_space: "isspace (CHR '' '')"
  by (simp add: isspace_def)

lemma re_sub_spaces_hd:
  "s \<noteq> [] \<Longrightarrow> \<not> isspace (hd s) \<Longrightarrow> re_sub_spaces s = hd s # re_sub_spaces (tl s)"
  by (cases s) auto

lemma dropWhile_hd_not: "dropWhile P xs \<noteq> [] \<Longrightarrow> \<not> P (hd (dropWhile P xs))"
  by (simp add: hd_dropWhile)

lemma collapsed_Cons:
  "collapsed (c # t) \<longleftrightarrow> (isspace c \<longrightarrow> c = CHR '' '' \<and> (t \<noteq> [] \<longrightarrow> \<not> isspace (hd t))) \<and> collapsed t"
  by (cases t) auto

lemma re_sub_spaces_collapsed: "collapsed (re_sub_spaces s)"
proof (induction s rule: re_sub_spaces.induct)
  case 1
  show ?case by simp
next
  case (2 c cs)
  show ?case
  proof (cases "isspace c")
    case True
    let ?d = "dropWhile isspace cs"
    have "re_sub_spaces ?d \<noteq> [] \<longrightarrow> \<not> isspace (hd (re_sub_spaces ?d))"
    proof (cases ?d)
      case Nil
      then have "re_sub_spaces ?d = []" by (simp only: re_sub_spaces.simps)
      then show ?thesis by (simp only: simp_thms)
    next
      case (Cons x xs)
      then have "\<not> isspace x" using dropWhile_hd_not [of isspace cs] by simp
      with Cons show ?thesis by simp
    qed
    with True 2 show ?thesis by (simp add: collapsed_Cons)
  next
    case False
    with 2 show ?thesis by (simp add: collapsed_Cons)
  qed
qed

lemma collapsed_fixpoint: "collapsed t \<Longrightarrow> re_sub_spaces t = t"
proof (induction t rule: collapsed.induct)
  case 1
  show ?case by simp
next
  case (2 c)
  then show ?case by auto
next
  case (3 c d cs)
  then show ?case by auto
qed

lemma collapsed_append: "collapsed (xs @ ys) \<Longrightarrow> collapsed xs \<and> collapsed ys"
proof (induction xs rule: collapsed.induct)
  case 1
  then show ?case by simp
next
  case (2 c)
  then show ?case by (cases ys) auto
next
  case (3 c d cs)
  then show ?case by auto
qed

lemma rev_dropWhile_rev:
  "v = rev (dropWhile P (rev v)) @ rev (takeWhile P (rev v))"
proof -
  have "rev (takeWhile P (rev v) @ dropWhile P (rev v))
          = rev (dropWhile P (rev v)) @ rev (takeWhile P (rev v))"
    by (rule rev_append)
  moreover have "rev (takeWhile P (rev v) @ dropWhile P (rev v)) = v"
    by (simp only: takeWhile_dropWhile_id rev_rev_ident)
  ultimately show ?thesis by (simp only:)
qed

lemma strip_decomp: "\<exists>pre suf. t = pre @ strip t @ suf"
proof -
  have a: "t = takeWhile isspace t @ dropWhile isspace t" by simp
  have b: "dropWhile isspace t
             = strip t @ rev (takeWhile isspace (rev (dropWhile isspace t)))"
    unfolding strip_def by (rule rev_dropWhile_rev)
  have "t = takeWhile isspace t @ strip t @ rev (takeWhile isspace (rev (dropWhile isspace t)))"
    using a b by (metis)
  then show ?thesis by blast
qed

lemma collapsed_strip: "collapsed t \<Longrightarrow> collapsed (strip t)"
proof -
  assume c: "collapsed t"
  obtain pre suf where "t = pre @ strip t @ suf" using strip_decomp by blast
  with c have "collapsed (pre @ strip t @ suf)" by simp
  then show ?thesis using collapsed_append by blast
qed

lemma strip_ends:
  "strip t \<noteq> [] \<Longrightarrow> \<not> isspace (hd (strip t)) \<and> \<not> isspace (last (strip t))"
proof -
  assume ne: "strip t \<noteq> []"
  let ?v = "dropWhile isspace t"
  let ?w = "dropWhile isspace (rev ?v)"
  from ne have wne: "?w \<noteq> []" by (simp add: strip_def)
  then have 1: "\<not> isspace (hd ?w)" by (rule dropWhile_hd_not)
  have "last (strip t) = hd ?w" using wne by (simp add: strip_def last_rev)
  with 1 have l: "\<not> isspace (last (strip t))" by simp
  have vne: "?v \<noteq> []"
  proof
    assume "?v = []"
    then have "?w = []" by (simp only: rev.simps dropWhile.simps)
    with wne show False by (simp only: simp_thms)
  qed
  then have 2: "\<not> isspace (hd ?v)" by (rule dropWhile_hd_not)
  have "?v = strip t @ rev (takeWhile isspace (rev ?v))"
    unfolding strip_def by (rule rev_dropWhile_rev)
  then have "hd ?v = hd (strip t)" using ne by (metis hd_append2)
  with 2 l show ?thesis by simp
qed

lemma strip_fixpoint:
  assumes "t = [] \<or> (\<not> isspace (hd t) \<and> \<not> isspace (last t))"
  shows "strip t = t"
proof (cases "t = []")
  case True
  then show ?thesis by (simp add: strip_def)
next
  case False
  with assms have h: "\<not> isspace (hd t)" and l: "\<not> isspace (last t)" by auto
  from False h have 1: "dropWhile isspace t = t" by (cases t) auto
  from False l have "\<not> isspace (hd (rev t))" by (simp add: hd_rev)
  with False have 2: "dropWhile isspace (rev t) = rev t" by (cases "rev t") auto
  from 1 2 show ?thesis by (simp add: strip_def)
qed

lemma strip_idem: "strip (strip t) = strip t"
  using strip_ends [of t] strip_fixpoint [of "strip t"] by blast

lemma parse_out_collapsed: "collapsed (parse_out s)"
  by (simp add: parse_out_def collapsed_strip re_sub_spaces_collapsed)

lemma parse_out_fixpoint:
  "collapsed t \<Longrightarrow> t = [] \<or> (\<not> isspace (hd t) \<and> \<not> isspace (last t)) \<Longrightarrow> parse_out t = t"
  by (simp add: parse_out_def collapsed_fixpoint strip_fixpoint)

text \<open>
  C10. Normalising an already normalised string changes nothing.
\<close>

theorem parse_out_idempotent: "parse_out (parse_out s) = parse_out s"
proof -
  have "collapsed (parse_out s)" by (rule parse_out_collapsed)
  moreover have "parse_out s = [] \<or> (\<not> isspace (hd (parse_out s)) \<and> \<not> isspace (last (parse_out s)))"
    using strip_ends [of "re_sub_spaces s"] by (auto simp: parse_out_def)
  ultimately show ?thesis by (rule parse_out_fixpoint)
qed


lemma prefix_re_sub_spaces:
  "\<forall>c\<in>set p. \<not> isspace c \<Longrightarrow> prefix p (re_sub_spaces cs) \<longleftrightarrow> prefix p cs"
proof (induction p arbitrary: cs)
  case Nil
  show ?case by simp
next
  case (Cons a p)
  then have na: "\<not> isspace a" by simp
  show ?case
  proof (cases cs)
    case Nil
    then show ?thesis by simp
  next
    case (Cons d ds)
    show ?thesis
    proof (cases "isspace d")
      case True
      with na have "a \<noteq> d" and "a \<noteq> CHR '' ''" using isspace_space by auto
      with True Cons show ?thesis by simp
    next
      case False
      with Cons Cons.IH [of ds] Cons.prems show ?thesis by simp
    qed
  qed
qed

lemma sublist_dropWhile_isspace:
  assumes "p \<noteq> []" and "\<forall>c\<in>set p. \<not> isspace c"
  shows "sublist p (dropWhile isspace cs) \<longleftrightarrow> sublist p cs"
proof (induction cs)
  case Nil
  show ?case by simp
next
  case (Cons d ds)
  show ?case
  proof (cases "isspace d")
    case True
    from assms obtain a q where p: "p = a # q" and "\<not> isspace a" by (cases p) auto
    with True have "\<not> prefix p (d # ds)" by auto
    with True Cons show ?thesis by (simp add: sublist_Cons_right)
  next
    case False
    then show ?thesis by simp
  qed
qed

lemma sublist_re_sub_spaces:
  assumes "p \<noteq> []" and "\<forall>c\<in>set p. \<not> isspace c"
  shows "sublist p (re_sub_spaces s) \<longleftrightarrow> sublist p s"
proof (induction s rule: re_sub_spaces.induct)
  case 1
  show ?case by simp
next
  case (2 c cs)
  from assms obtain a q where p: "p = a # q" and na: "\<not> isspace a"
    and nq: "\<forall>c\<in>set q. \<not> isspace c" by (cases p) auto
  show ?case
  proof (cases "isspace c")
    case True
    with na have "a \<noteq> c" and "a \<noteq> CHR '' ''" using isspace_space by auto
    then have "\<not> prefix p (c # cs)"
      and "\<not> prefix p (CHR '' '' # re_sub_spaces (dropWhile isspace cs))"
      using p by auto
    with True 2 sublist_dropWhile_isspace [OF assms, of cs] show ?thesis
      by (simp add: sublist_Cons_right)
  next
    case False
    have "prefix p (c # re_sub_spaces cs) \<longleftrightarrow> prefix p (c # cs)"
      using p prefix_re_sub_spaces [OF nq, of cs] by simp
    with False 2 show ?thesis by (simp add: sublist_Cons_right)
  qed
qed

lemma sublist_strip:
  assumes "p \<noteq> []" and "\<forall>c\<in>set p. \<not> isspace c"
  shows "sublist p (strip t) \<longleftrightarrow> sublist p t"
proof -
  have r: "rev p \<noteq> []" "\<forall>c\<in>set (rev p). \<not> isspace c" using assms by auto
  have "sublist p (strip t) \<longleftrightarrow> sublist (rev p) (dropWhile isspace (rev (dropWhile isspace t)))"
    by (simp add: strip_def sublist_rev_right)
  also have "\<dots> \<longleftrightarrow> sublist (rev p) (rev (dropWhile isspace t))"
    by (rule sublist_dropWhile_isspace [OF r])
  also have "\<dots> \<longleftrightarrow> sublist p (dropWhile isspace t)"
    by (simp add: sublist_rev_right)
  also have "\<dots> \<longleftrightarrow> sublist p t"
    by (rule sublist_dropWhile_isspace [OF assms])
  finally show ?thesis .
qed

lemma re_search_parse_out:
  assumes "p \<noteq> []" and "\<forall>c\<in>set p. \<not> isspace c"
  shows "re_search p (parse_out s) \<longleftrightarrow> re_search p s"
  by (simp add: re_search_def parse_out_def sublist_strip [OF assms]
      sublist_re_sub_spaces [OF assms])

subsection \<open>Formatting, classification and the run\<close>

lemma format_items_acc:
  "format_items sub items acc = Inr fl \<longleftrightarrow>
     (\<exists>fl'. fl = acc @ fl' \<and> list_all2 (emits sub) items fl')"
proof (induction items arbitrary: acc)
  case Nil
  show ?case by auto
next
  case (Cons item items)
  obtain k v where item: "item = (k, v)" by (cases item)
  show ?case
  proof (cases "options sub k")
    case None
    then show ?thesis
      by (simp add: item get_sub_command_option_def emits_def list_all2_Cons1)
  next
    case (Some opt)
    show ?thesis
    proof (cases "accepts_values opt")
      case True
      show ?thesis
      proof (cases v)
        case (PyStr s)
        with Some True show ?thesis
          by (auto simp add: item get_sub_command_option_def emits_def list_all2_Cons1 Cons.IH)
      qed (simp_all add: item Some True get_sub_command_option_def emits_def list_all2_Cons1)
    next
      case False
      with Some show ?thesis
        by (auto simp add: item get_sub_command_option_def emits_def list_all2_Cons1 Cons.IH)
    qed
  qed
qed

lemma get_formatted_options_Inr:
  "get_formatted_options sub opts = Inr fl \<longleftrightarrow>
     (case opts of None \<Rightarrow> fl = [] | Some items \<Rightarrow> list_all2 (emits sub) items fl)"
  by (auto simp add: get_formatted_options_def format_items_acc split: option.splits)

lemma format_items_Inl:
  "format_items sub items acc = Inl f \<Longrightarrow>
     f = fail_msg ''Option not available in SubCommand'' \<or> f = Raised TypeError"
  by (induction sub items acc rule: format_items.induct)
    (auto simp add: get_sub_command_option_def split: option.splits if_splits pyval.splits)



lemma classify_formula:
  "classify output \<longleftrightarrow>
     (re_search ''Success'' output \<or> re_search ''update_type'' output)
     \<and> \<not> re_search ''0/0'' output
     \<and> \<not> re_search ''WordPress is at the latest version'' output"
  by (simp add: classify_def Let_def)

lemma main_ran:
  assumes "snd (main e p) = [c]" and "run_command e c = (rc, out, err)"
  shows "fst (main e p) =
           (if rc \<noteq> 0 then
              Fail_json \<lparr>msg = parse_out err, stdout = Some err, changed = Some False\<rparr>
            else
              Exit_json \<lparr>msg = parse_out (out @ err), stdout = Some (out @ err),
                         changed = Some (classify (parse_out (out @ err)))\<rparr>)"
  using assms
  by (auto simp add: main_def wp_better_command_def Let_def
      split: sum.splits option.splits prod.splits if_splits)

lemma main_resolved:
  assumes "resolve (command p) (subcommand p) = Inr (pc, sc)"
    and "get_formatted_options sc (arguments p) = Inr fl"
    and "bin_path e = Some w"
  shows "snd (main e p) =
           [w @ '' '' @ Command.name pc @ '' '' @ SubCommand.name sc @ '' ''
              @ join '' '' (fl @ [''--path='' @ working_dir p])]"
  using assms
  by (auto simp add: main_def resolve_def wp_better_command_def Let_def
      split: sum.splits option.splits prod.splits if_splits)

lemma main_not_run:
  "snd (main e p) = [] \<longleftrightarrow>
     (\<forall>pc sc fl. resolve (command p) (subcommand p) = Inr (pc, sc) \<longrightarrow>
        get_formatted_options sc (arguments p) = Inr fl \<longrightarrow> bin_path e = None)"
  by (auto simp add: main_def resolve_def wp_better_command_def Let_def
      split: sum.splits option.splits prod.splits if_splits)

lemma squeeze_space:
  "isspace c \<Longrightarrow>
   squeeze (CHR '' '' # map (\<lambda>c. if isspace c then CHR '' '' else c) cs)
     = CHR '' '' # squeeze (map (\<lambda>c. if isspace c then CHR '' '' else c) (dropWhile isspace cs))"
proof (induction cs)
  case Nil
  show ?case by simp
next
  case (Cons d ds)
  then show ?case using isspace_space by (cases "isspace d") auto
qed

lemma squeeze_Cons_nonspace:
  "c \<noteq> CHR '' '' \<Longrightarrow> squeeze (c # cs) = c # squeeze cs"
  by (cases cs) auto

lemma re_sub_spaces_squeeze:
  "re_sub_spaces s = squeeze (map (\<lambda>c. if isspace c then CHR '' '' else c) s)"
proof (induction s rule: re_sub_spaces.induct)
  case 1
  show ?case by simp
next
  case (2 c cs)
  show ?case
  proof (cases "isspace c")
    case True
    with 2 squeeze_space [OF True, of cs] show ?thesis by simp
  next
    case False
    then have "c \<noteq> CHR '' ''" using isspace_space by auto
    with False 2 show ?thesis by (simp add: squeeze_Cons_nonspace)
  qed
qed

lemma parse_out_spec: "parse_out s = normalize_spec s"
  by (simp add: parse_out_def normalize_spec_def re_sub_spaces_squeeze)

subsection \<open>The result of a run\<close>

lemma nospace_Success: "\<forall>c\<in>set ''Success''. \<not> isspace c" by (simp add: isspace_def)
lemma nospace_update_type: "\<forall>c\<in>set ''update_type''. \<not> isspace c" by (simp add: isspace_def)

lemma raw_Success: "re_search ''Success'' (parse_out s) = re_search ''Success'' s"
  by (rule re_search_parse_out [OF _ nospace_Success]) simp
lemma raw_update_type: "re_search ''update_type'' (parse_out s) = re_search ''update_type'' s"
  by (rule re_search_parse_out [OF _ nospace_update_type]) simp




text \<open>
  C9. When the subprocess exits with code 0 and the combined stdout and stderr text
  contains none of the four patterns, the run is reported with \<open>changed = False\<close>.
\<close>

theorem no_pattern_unchanged:
  assumes "snd (main e p) = [c]" and "run_command e c = (0, out, err)"
    and "\<not> re_search ''Success'' (out @ err)"
    and "\<not> re_search ''update_type'' (out @ err)"
    and "\<not> re_search ''0/0'' (out @ err)"
    and "\<not> re_search ''WordPress is at the latest version'' (out @ err)"
  shows "\<exists>k. fst (main e p) = Exit_json k \<and> changed k = Some False"
  using main_ran [OF assms(1,2)] assms(3,4)
  by (simp add: classify_formula raw_Success raw_update_type)

theorem no_pattern_unchanged_witness:
  "snd (main (example_env 0 ''Downloading WordPress 4.5 (en_US)...'' ''Warning: slow mirror'')
         \<lparr>command = ''core'', subcommand = ''download'', arguments = None,
          working_dir = ''/srv/www''\<rparr>)
     = [''/usr/local/bin/wp core download --path=/srv/www'']
   \<and> run_command (example_env 0 ''Downloading WordPress 4.5 (en_US)...'' ''Warning: slow mirror'')
        ''/usr/local/bin/wp core download --path=/srv/www''
       = (0, ''Downloading WordPress 4.5 (en_US)...'', ''Warning: slow mirror'')
   \<and> \<not> re_search ''Success'' (''Downloading WordPress 4.5 (en_US)...'' @ ''Warning: slow mirror'')
   \<and> \<not> re_search ''update_type'' (''Downloading WordPress 4.5 (en_US)...'' @ ''Warning: slow mirror'')
   \<and> \<not> re_search ''0/0'' (''Downloading WordPress 4.5 (en_US)...'' @ ''Warning: slow mirror'')
   \<and> \<not> re_search ''WordPress is at the latest version''
          (''Downloading WordPress 4.5 (en_US)...'' @ ''Warning: slow mirror'')
   \<and> (\<exists>k. fst (main (example_env 0 ''Downloading WordPress 4.5 (en_US)...'' ''Warning: slow mirror'')
         \<lparr>command = ''core'', subcommand = ''download'', arguments = None,
          working_dir = ''/srv/www''\<rparr>) = Exit_json k \<and> changed k = Some False)"
proof -
  let ?out = "''Downloading WordPress 4.5 (en_US)...''"
  let ?err = "''Warning: slow mirror''"
  let ?e = "example_env 0 ?out ?err"
  let ?p = "\<lparr>command = ''core'', subcommand = ''download'', arguments = None,
          working_dir = ''/srv/www''\<rparr>"
  let ?c = "''/usr/local/bin/wp core download --path=/srv/www''"
  have 1: "snd (main ?e ?p) = [?c]"
    by (simp add: main_defs commands_eval objects_eval example_env_def Let_def)
  have 2: "run_command ?e ?c = (0, ?out, ?err)"
    by (simp add: example_env_def)
  have 3: "\<not> re_search ''Success'' (?out @ ?err)"
    by (simp add: re_search_def sublist_code)
  have 4: "\<not> re_search ''update_type'' (?out @ ?err)"
    by (simp add: re_search_def sublist_code)
  have 5: "\<not> re_search ''0/0'' (?out @ ?err)"
    by (simp add: re_search_def sublist_code)
  have 6: "\<not> re_search ''WordPress is at the latest version'' (?out @ ?err)"
    by (simp add: re_search_def sublist_code)
  from no_pattern_unchanged [OF 1 2 3 4 5 6] have
    "\<exists>k. fst (main ?e ?p) = Exit_json k \<and> changed k = Some False" .
  with 1 2 3 4 5 6 show ?thesis by blast
qed

text \<open>
  C5. When the subprocess exits with a non-zero code, the run ends in \<open>fail_json\<close>
  with \<open>stdout\<close> set to the raw stderr and \<open>changed\<close> false whatever the text
  contains, and the process exit status is not zero. The \<open>msg\<close> field, however, is
  not stderr itself but stderr normalised by \<open>parse_out\<close>: with stderr
  \<open>Error: no site\<close> followed by a newline, \<open>msg\<close> has lost the newline.
\<close>

theorem failure_msg_counterexample:
  "snd (main (example_env 1 [] (''Error: no site'' @ [CHR 0x0A]))
         \<lparr>command = ''core'', subcommand = ''download'', arguments = None,
          working_dir = ''/srv/www''\<rparr>)
     = [''/usr/local/bin/wp core download --path=/srv/www'']
   \<and> run_command (example_env 1 [] (''Error: no site'' @ [CHR 0x0A]))
        ''/usr/local/bin/wp core download --path=/srv/www''
       = (1, [], ''Error: no site'' @ [CHR 0x0A])
   \<and> fst (main (example_env 1 [] (''Error: no site'' @ [CHR 0x0A]))
         \<lparr>command = ''core'', subcommand = ''download'', arguments = None,
          working_dir = ''/srv/www''\<rparr>)
       = Fail_json \<lparr>msg = ''Error: no site'', stdout = Some (''Error: no site'' @ [CHR 0x0A]),
                    changed = Some False\<rparr>
   \<and> ''Error: no site'' \<noteq> ''Error: no site'' @ [CHR 0x0A]"
  by (simp add: main_defs commands_eval objects_eval example_env_def Let_def
      parse_out_def strip_def isspace_def)

text \<open>
  C5, as the code has it: on a non-zero exit code \<open>msg\<close> is the normalised stderr,
  \<open>stdout\<close> the raw stderr, \<open>changed\<close> is false and the exit status is non-zero.
\<close>

theorem nonzero_exit_reports_failure:
  assumes "snd (main e p) = [c]" and "run_command e c = (rc, out, err)" and "rc \<noteq> 0"
  shows "fst (main e p)
           = Fail_json \<lparr>msg = parse_out err, stdout = Some err, changed = Some False\<rparr>
         \<and> exit_status (fst (main e p)) \<noteq> 0"
  using main_ran [OF assms(1,2)] assms(3) by simp

theorem nonzero_exit_reports_failure_witness:
  "snd (main (example_env 1 ''Success: half done'' (''Error: no site'' @ [CHR 0x0A]))
         \<lparr>command = ''core'', subcommand = ''download'', arguments = None,
          working_dir = ''/srv/www''\<rparr>)
     = [''/usr/local/bin/wp core download --path=/srv/www'']
   \<and> run_command (example_env 1 ''Success: half done'' (''Error: no site'' @ [CHR 0x0A]))
        ''/usr/local/bin/wp core download --path=/srv/www''
       = (1, ''Success: half done'', ''Error: no site'' @ [CHR 0x0A])
   \<and> (1::int) \<noteq> 0
   \<and> fst (main (example_env 1 ''Success: half done'' (''Error: no site'' @ [CHR 0x0A]))
         \<lparr>command = ''core'', subcommand = ''download'', arguments = None,
          working_dir = ''/srv/www''\<rparr>)
       = Fail_json \<lparr>msg = ''Error: no site'', stdout = Some (''Error: no site'' @ [CHR 0x0A]),
                    changed = Some False\<rparr>"
proof -
  let ?err = "''Error: no site'' @ [CHR 0x0A]"
  let ?e = "example_env 1 ''Success: half done'' ?err"
  let ?p = "\<lparr>command = ''core'', subcommand = ''download'', arguments = None,
          working_dir = ''/srv/www''\<rparr>"
  let ?c = "''/usr/local/bin/wp core download --path=/srv/www''"
  have 1: "snd (main ?e ?p) = [?c]"
    by (simp add: main_defs commands_eval objects_eval example_env_def Let_def)
  have 2: "run_command ?e ?c = (1, ''Success: half done'', ?err)"
    by (simp add: example_env_def)
  have 3: "(1::int) \<noteq> 0" by simp
  have 4: "parse_out ?err = ''Error: no site''"
    by (simp add: parse_out_def strip_def isspace_def)
  from nonzero_exit_reports_failure [OF 1 2 3] 4 1 2 show ?thesis by simp
qed

text \<open>
  C6. On exit code 0 the \<open>msg\<close> field is the normalisation of stdout followed by
  stderr: every whitespace run collapsed to one space, nothing but single spaces left as
  whitespace, no whitespace at either end; and \<open>stdout\<close> is the raw concatenation of
  stdout and stderr in that order.
\<close>

theorem success_msg_and_stdout:
  assumes "snd (main e p) = [c]" and "run_command e c = (0, out, err)"
  shows "\<exists>k. fst (main e p) = Exit_json k
           \<and> msg k = parse_out (out @ err)
           \<and> msg k = normalize_spec (out @ err)
           \<and> collapsed (msg k)
           \<and> (msg k = [] \<or> (\<not> isspace (hd (msg k)) \<and> \<not> isspace (last (msg k))))
           \<and> stdout k = Some (out @ err)"
  using main_ran [OF assms] parse_out_collapsed [of "out @ err"]
    strip_ends [of "re_sub_spaces (out @ err)"] parse_out_spec [of "out @ err"]
  by (auto simp add: parse_out_def)

theorem success_msg_and_stdout_witness:
  "snd (main (example_env 0 (''Success:  WordPress installed.'' @ [CHR 0x0A]) ''  Warning: x '')
         \<lparr>command = ''core'', subcommand = ''download'', arguments = None,
          working_dir = ''/srv/www''\<rparr>)
     = [''/usr/local/bin/wp core download --path=/srv/www'']
   \<and> run_command (example_env 0 (''Success:  WordPress installed.'' @ [CHR 0x0A]) ''  Warning: x '')
        ''/usr/local/bin/wp core download --path=/srv/www''
       = (0, ''Success:  WordPress installed.'' @ [CHR 0x0A], ''  Warning: x '')
   \<and> (\<exists>k. fst (main (example_env 0 (''Success:  WordPress installed.'' @ [CHR 0x0A]) ''  Warning: x '')
         \<lparr>command = ''core'', subcommand = ''download'', arguments = None,
          working_dir = ''/srv/www''\<rparr>) = Exit_json k
        \<and> msg k = ''Success: WordPress installed. Warning: x''
        \<and> stdout k = Some ((''Success:  WordPress installed.'' @ [CHR 0x0A]) @ ''  Warning: x ''))"
proof -
  let ?out = "''Success:  WordPress installed.'' @ [CHR 0x0A]"
  let ?err = "''  Warning: x ''"
  let ?e = "example_env 0 ?out ?err"
  let ?p = "\<lparr>command = ''core'', subcommand = ''download'', arguments = None,
          working_dir = ''/srv/www''\<rparr>"
  let ?c = "''/usr/local/bin/wp core download --path=/srv/www''"
  have 1: "snd (main ?e ?p) = [?c]"
    by (simp add: main_defs commands_eval objects_eval example_env_def Let_def)
  have 2: "run_command ?e ?c = (0, ?out, ?err)"
    by (simp add: example_env_def)
  have 3: "parse_out (?out @ ?err) = ''Success: WordPress installed. Warning: x''"
    by (simp add: parse_out_def strip_def isspace_def)
  from success_msg_and_stdout [OF 1 2] obtain k where
    "fst (main ?e ?p) = Exit_json k" "msg k = parse_out (?out @ ?err)"
    "stdout k = Some (?out @ ?err)" by blast
  with 3 have "fst (main ?e ?p) = Exit_json k \<and> msg k = ''Success: WordPress installed. Warning: x''
        \<and> stdout k = Some (?out @ ?err)" by simp
  with 1 2 show ?thesis by blast
qed

subsection \<open>Validation and formatting\<close>

lemma resolve_in_objects:
  "resolve c s = Inr (pc, sc) \<Longrightarrow> sc \<in> set objects \<and> commands c = Some pc"
  by (auto simp add: resolve_defs commands_eval objects_eval split: if_splits)

lemma objects_option_names:
  "sc \<in> set objects \<Longrightarrow> options sc k = Some opt \<Longrightarrow> Option.name opt = k"
  by (auto simp add: objects_eval split: if_splits)

lemma objects_no_path: "sc \<in> set objects \<Longrightarrow> options sc ''path'' = None"
  by (auto simp add: objects_eval)

lemma emits_exists:
  assumes "\<forall>(k, v)\<in>set items. \<exists>opt. options sub k = Some opt
             \<and> (accepts_values opt \<longrightarrow> (\<exists>s. v = PyStr s))"
  shows "\<exists>fl. list_all2 (emits sub) items fl"
  using assms
proof (induction items)
  case Nil
  show ?case by simp
next
  case (Cons item items)
  obtain k v where item: "item = (k, v)" by (cases item)
  from Cons.prems item obtain opt where o: "options sub k = Some opt"
    and a: "accepts_values opt \<longrightarrow> (\<exists>s. v = PyStr s)" by auto
  have "\<exists>f. emits sub item f"
    using o a by (cases "accepts_values opt") (auto simp add: emits_def item)
  moreover from Cons obtain fl where "list_all2 (emits sub) items fl" by auto
  ultimately show ?case by (auto simp add: list_all2_Cons1)
qed

lemma get_formatted_options_dict_items:
  "get_formatted_options sub opts = Inr fl \<longleftrightarrow> list_all2 (emits sub) (dict_items opts) fl"
  by (cases opts) (auto simp add: get_formatted_options_Inr dict_items_def)

lemma emits_key: "emits sub (k, v) f \<Longrightarrow> options sub k \<noteq> None"
  by (auto simp add: emits_def split: option.splits)

text \<open>
  C3. For a resolved subcommand and an argument dictionary whose keys are all options of
  that subcommand, the formatter is claimed to emit \<open>--name=value\<close> for every option
  that accepts a value. It does not when the supplied value is not a string: \<open>url\<close> of
  \<open>core install\<close> accepts a value, and with \<open>url\<close> set to null the concatenation
  raises \<open>TypeError\<close>; no flag list is produced and nothing is run.
\<close>

theorem flags_formatted_counterexample:
  "resolve ''core'' ''install'' = Inr (\<lparr>Command.name = ''core'', subCommands =
        [''install'' \<mapsto> 0, ''download'' \<mapsto> 2, ''config'' \<mapsto> 3, ''update'' \<mapsto> 4,
         ''update-db'' \<mapsto> 5, ''checkUpdate'' \<mapsto> 6]\<rparr>, objects ! 0)
   \<and> options (objects ! 0) ''url'' = Some \<lparr>Option.name = ''url'', accepts_values = True\<rparr>
   \<and> get_formatted_options (objects ! 0) (Some [(''url'', PyNone)]) = Inl (Raised TypeError)
   \<and> main (example_env 0 [] [])
        \<lparr>command = ''core'', subcommand = ''install'', arguments = Some [(''url'', PyNone)],
         working_dir = ''/srv/www''\<rparr>
      = (Raised TypeError, [])"
  by (simp add: main_defs resolve_def commands_eval objects_eval get_sub_command_option_def)


text \<open>
  C3, as the code has it. For a resolved subcommand and an argument dictionary in which
  every key is an option of the subcommand and every value-accepting option is given a
  string, the formatter emits one flag per entry, in order: \<open>--name=value\<close> for an option
  that accepts a value, \<open>--name\<close> (the value ignored) for one that does not, the name
  being the key. The command line that is run ends with \<open>--path=<working_dir>\<close>, which
  is appended after the formatted flags although no subcommand has an option \<open>path\<close>.
\<close>

theorem flags_formatted:
  assumes "resolve (command p) (subcommand p) = Inr (pc, sc)"
    and "\<forall>(k, v)\<in>set (dict_items (arguments p)). \<exists>opt. options sc k = Some opt
           \<and> (accepts_values opt \<longrightarrow> (\<exists>s. v = PyStr s))"
    and "bin_path e = Some w"
  shows "\<exists>fl. get_formatted_options sc (arguments p) = Inr fl
           \<and> list_all2 (emits sc) (dict_items (arguments p)) fl
           \<and> (\<forall>k opt. options sc k = Some opt \<longrightarrow> Option.name opt = k)
           \<and> options sc ''path'' = None
           \<and> snd (main e p) =
               [w @ '' '' @ Command.name pc @ '' '' @ SubCommand.name sc @ '' ''
                  @ join '' '' (fl @ [''--path='' @ working_dir p])]"
proof -
  from emits_exists [OF assms(2)] obtain fl where
    fl: "list_all2 (emits sc) (dict_items (arguments p)) fl" by blast
  then have g: "get_formatted_options sc (arguments p) = Inr fl"
    by (simp add: get_formatted_options_dict_items)
  from resolve_in_objects [OF assms(1)] have mem: "sc \<in> set objects" by simp
  from mem have names: "\<forall>k opt. options sc k = Some opt \<longrightarrow> Option.name opt = k"
    using objects_option_names by blast
  from mem have np: "options sc ''path'' = None" by (rule objects_no_path)
  from main_resolved [OF assms(1) g assms(3)] fl g names np show ?thesis by blast
qed

theorem flags_formatted_witness:
  "resolve ''core'' ''install'' = Inr (\<lparr>Command.name = ''core'', subCommands =
        [''install'' \<mapsto> 0, ''download'' \<mapsto> 2, ''config'' \<mapsto> 3, ''update'' \<mapsto> 4,
         ''update-db'' \<mapsto> 5, ''checkUpdate'' \<mapsto> 6]\<rparr>, objects ! 0)
   \<and> options (objects ! 0) ''url'' = Some \<lparr>Option.name = ''url'', accepts_values = True\<rparr>
   \<and> options (objects ! 0) ''skip-email''
        = Some \<lparr>Option.name = ''skip-email'', accepts_values = False\<rparr>
   \<and> bin_path (example_env 0 [] []) = Some ''/usr/local/bin/wp''
   \<and> snd (main (example_env 0 [] [])
        \<lparr>command = ''core'', subcommand = ''install'',
         arguments = Some [(''url'', PyStr ''http://x''), (''skip-email'', PyNone)],
         working_dir = ''/srv/www''\<rparr>)
      = [''/usr/local/bin/wp core install --url=http://x --skip-email --path=/srv/www'']"
proof -
  let ?pc = "\<lparr>Command.name = ''core'', subCommands =
        [''install'' \<mapsto> 0, ''download'' \<mapsto> 2, ''config'' \<mapsto> 3, ''update'' \<mapsto> 4,
         ''update-db'' \<mapsto> 5, ''checkUpdate'' \<mapsto> 6]\<rparr>"
  let ?items = "[(''url'', PyStr ''http://x''), (''skip-email'', PyNone)]"
  let ?p = "\<lparr>command = ''core'', subcommand = ''install'', arguments = Some ?items,
         working_dir = ''/srv/www''\<rparr>"
  let ?e = "example_env 0 [] []"
  have 1: "resolve (command ?p) (subcommand ?p) = Inr (?pc, objects ! 0)"
    by (simp add: resolve_defs commands_eval objects_eval)
  have 2: "\<forall>(k, v)\<in>set (dict_items (arguments ?p)).
         \<exists>opt. options (objects ! 0) k = Some opt
           \<and> (accepts_values opt \<longrightarrow> (\<exists>s. v = PyStr s))"
    by (simp add: dict_items_def objects_eval)
  have 3: "bin_path ?e = Some ''/usr/local/bin/wp''"
    by (simp add: example_env_def)
  from flags_formatted [OF 1 2 3] obtain fl where
    fl: "list_all2 (emits (objects ! 0)) (dict_items (arguments ?p)) fl"
    and m: "snd (main ?e ?p) =
               [''/usr/local/bin/wp'' @ '' '' @ Command.name ?pc @ '' ''
                  @ SubCommand.name (objects ! 0) @ '' ''
                  @ join '' '' (fl @ [''--path='' @ working_dir ?p])]"
    by blast
  from fl have "fl = [''--url=http://x'', ''--skip-email'']"
    by (auto simp add: dict_items_def list_all2_Cons1 emits_def objects_eval)
  with m have "snd (main ?e ?p)
      = [''/usr/local/bin/wp core install --url=http://x --skip-email --path=/srv/www'']"
    by (simp add: objects_eval)
  moreover have "options (objects ! 0) ''url''
      = Some \<lparr>Option.name = ''url'', accepts_values = True\<rparr>"
    and "options (objects ! 0) ''skip-email''
      = Some \<lparr>Option.name = ''skip-email'', accepts_values = False\<rparr>"
    by (simp_all add: objects_eval)
  ultimately show ?thesis using 1 3 by simp
qed

lemma main_ran_inv:
  assumes "snd (main e p) = [c]"
  shows "\<exists>pc sc fl w. resolve (command p) (subcommand p) = Inr (pc, sc)
           \<and> get_formatted_options sc (arguments p) = Inr fl
           \<and> bin_path e = Some w
           \<and> c = w @ '' '' @ Command.name pc @ '' '' @ SubCommand.name sc @ '' ''
                   @ join '' '' (fl @ [''--path='' @ working_dir p])"
  using assms
  by (auto simp add: main_def resolve_def wp_better_command_def Let_def
      split: sum.splits option.splits prod.splits if_splits)

lemma list_all2_emits_keys:
  "list_all2 (emits sub) items fl \<Longrightarrow> \<forall>(k, v)\<in>set items. options sub k \<noteq> None"
  by (induction items fl rule: list_all2_induct) (auto dest: emits_key)

lemma get_formatted_options_unknown:
  assumes "\<exists>(k, v)\<in>set (dict_items opts). options sub k = None"
  shows "\<exists>f. get_formatted_options sub opts = Inl f
           \<and> (f = fail_msg ''Option not available in SubCommand'' \<or> f = Raised TypeError)"
proof (cases "get_formatted_options sub opts")
  case (Inl f)
  then have "f = fail_msg ''Option not available in SubCommand'' \<or> f = Raised TypeError"
    by (cases opts) (auto simp add: get_formatted_options_def dest: format_items_Inl)
  with Inl show ?thesis by simp
next
  case (Inr fl)
  then have "list_all2 (emits sub) (dict_items opts) fl"
    by (simp add: get_formatted_options_dict_items)
  from list_all2_emits_keys [OF this] assms show ?thesis by auto
qed

text \<open>
  C8. Whenever the formatter returns a flag list, its flags correspond one-to-one and in
  order to the entries of the argument dictionary, each entry's key being an option of
  the subcommand; a dictionary with a key that is not an option of the subcommand yields
  no flag list. Every command line that is run consists of such a list for the resolved
  subcommand followed by the \<open>--path\<close> flag.
\<close>

theorem flags_one_to_one:
  "(get_formatted_options sub opts = Inr fl \<longrightarrow>
      list_all2 (emits sub) (dict_items opts) fl
      \<and> length fl = length (dict_items opts)
      \<and> (\<forall>(k, v)\<in>set (dict_items opts). options sub k \<noteq> None))
   \<and> ((\<exists>(k, v)\<in>set (dict_items opts). options sub k = None) \<longrightarrow>
        (\<exists>f. get_formatted_options sub opts = Inl f))
   \<and> (snd (main e p) = [c] \<longrightarrow>
        (\<exists>pc sc fs w. resolve (command p) (subcommand p) = Inr (pc, sc)
           \<and> bin_path e = Some w
           \<and> list_all2 (emits sc) (dict_items (arguments p)) fs
           \<and> c = w @ '' '' @ Command.name pc @ '' '' @ SubCommand.name sc @ '' ''
                   @ join '' '' (fs @ [''--path='' @ working_dir p])))"
proof (intro conjI impI)
  assume g: "get_formatted_options sub opts = Inr fl"
  then show l: "list_all2 (emits sub) (dict_items opts) fl"
    by (simp add: get_formatted_options_dict_items)
  from l show "length fl = length (dict_items opts)"
    by (simp add: list_all2_lengthD)
  from l show "\<forall>(k, v)\<in>set (dict_items opts). options sub k \<noteq> None"
    by (rule list_all2_emits_keys)
next
  assume "\<exists>(k, v)\<in>set (dict_items opts). options sub k = None"
  from get_formatted_options_unknown [OF this]
  show "\<exists>f. get_formatted_options sub opts = Inl f" by blast
next
  assume "snd (main e p) = [c]"
  from main_ran_inv [OF this]
  show "\<exists>pc sc fs w. resolve (command p) (subcommand p) = Inr (pc, sc)
           \<and> bin_path e = Some w
           \<and> list_all2 (emits sc) (dict_items (arguments p)) fs
           \<and> c = w @ '' '' @ Command.name pc @ '' '' @ SubCommand.name sc @ '' ''
                   @ join '' '' (fs @ [''--path='' @ working_dir p])"
    by (auto simp add: get_formatted_options_dict_items)
qed


theorem flags_one_to_one_witness:
  "get_formatted_options (objects ! 0)
       (Some [(''url'', PyStr ''http://x''), (''skip-email'', PyNone)])
     = Inr [''--url=http://x'', ''--skip-email'']
   \<and> list_all2 (emits (objects ! 0))
        (dict_items (Some [(''url'', PyStr ''http://x''), (''skip-email'', PyNone)]))
        [''--url=http://x'', ''--skip-email'']
   \<and> (\<exists>(k, v)\<in>set (dict_items (Some [(''url'', PyStr ''http://x''), (''colour'', PyStr ''red'')])).
         options (objects ! 0) k = None)
   \<and> (\<exists>f. get_formatted_options (objects ! 0)
               (Some [(''url'', PyStr ''http://x''), (''colour'', PyStr ''red'')]) = Inl f)
   \<and> snd (main (example_env 0 [] [])
        \<lparr>command = ''core'', subcommand = ''install'',
         arguments = Some [(''url'', PyStr ''http://x''), (''skip-email'', PyNone)],
         working_dir = ''/srv/www''\<rparr>)
      = [''/usr/local/bin/wp core install --url=http://x --skip-email --path=/srv/www'']
   \<and> (\<exists>pc sc fs w. resolve ''core'' ''install'' = Inr (pc, sc)
         \<and> bin_path (example_env 0 [] []) = Some w
         \<and> list_all2 (emits sc) [(''url'', PyStr ''http://x''), (''skip-email'', PyNone)] fs
         \<and> ''/usr/local/bin/wp core install --url=http://x --skip-email --path=/srv/www''
             = w @ '' '' @ Command.name pc @ '' '' @ SubCommand.name sc @ '' ''
                 @ join '' '' (fs @ [''--path='' @ ''/srv/www'']))"
proof -
  let ?sub = "objects ! 0"
  let ?good = "Some [(''url'', PyStr ''http://x''), (''skip-email'', PyNone)]"
  let ?bad = "Some [(''url'', PyStr ''http://x''), (''colour'', PyStr ''red'')]"
  let ?fl = "[''--url=http://x'', ''--skip-email'']"
  let ?e = "example_env 0 [] []"
  let ?p = "\<lparr>command = ''core'', subcommand = ''install'', arguments = ?good,
         working_dir = ''/srv/www''\<rparr>"
  let ?c = "''/usr/local/bin/wp core install --url=http://x --skip-email --path=/srv/www''"
  have 1: "get_formatted_options ?sub ?good = Inr ?fl"
    by (simp add: get_formatted_options_def get_sub_command_option_def objects_eval)
  have 2: "\<exists>(k, v)\<in>set (dict_items ?bad). options ?sub k = None"
    by (simp add: dict_items_def objects_eval)
  have 3: "snd (main ?e ?p) = [?c]"
    by (simp add: main_defs commands_eval objects_eval example_env_def
        get_sub_command_option_def Let_def)
  from flags_one_to_one [of ?sub ?good ?fl] 1
  have a: "list_all2 (emits ?sub) (dict_items ?good) ?fl" by blast
  from flags_one_to_one [of ?sub ?bad] 2
  have b: "\<exists>f. get_formatted_options ?sub ?bad = Inl f" by blast
  from flags_one_to_one [of _ _ _ ?e ?p ?c] 3
  have c: "\<exists>pc sc fs w. resolve (command ?p) (subcommand ?p) = Inr (pc, sc)
           \<and> bin_path ?e = Some w
           \<and> list_all2 (emits sc) (dict_items (arguments ?p)) fs
           \<and> ?c = w @ '' '' @ Command.name pc @ '' '' @ SubCommand.name sc @ '' ''
                   @ join '' '' (fs @ [''--path='' @ working_dir ?p])" by blast
  then have c': "\<exists>pc sc fs w. resolve ''core'' ''install'' = Inr (pc, sc)
         \<and> bin_path ?e = Some w
         \<and> list_all2 (emits sc) [(''url'', PyStr ''http://x''), (''skip-email'', PyNone)] fs
         \<and> ?c = w @ '' '' @ Command.name pc @ '' '' @ SubCommand.name sc @ '' ''
                 @ join '' '' (fs @ [''--path='' @ ''/srv/www''])"
    by (simp add: dict_items_def)
  from 1 a 2 b 3 c' show ?thesis by (intro conjI)
qed




end
